theory Spec2Isabelle
  imports Complex_Main "HOL-Library.Log_Nat" "HOL-Library.Char_ord" "HOL-Library.List_Lexorder"
begin

section \<open>Python values used by the stores\<close>

text \<open>
  Exceptions are values. \<open>ValueError\<close> and \<open>FileNotFoundError\<close> are raised by the
  source itself, \<open>IntegrityError\<close> is what \<open>sqlite3\<close> raises when an \<open>INSERT\<close> breaks a
  \<open>PRIMARY KEY\<close> or \<open>UNIQUE\<close> constraint, and \<open>ExternalError\<close> stands for any exception
  coming out of an external collaborator (the optimizer, a module's \<open>forward\<close>, a
  metric), carrying its message.
\<close>

datatype py_error = ValueError | FileNotFoundError | IntegrityError | ExternalError string

subsection \<open>Floats\<close>

text \<open>
  A Python \<open>float\<close> is an IEEE 754 binary64 number. The finite ones are modelled by
  their exact value, a real number; every arithmetic operation computes the exact
  result and rounds it to the nearest binary64 value, ties to even, with gradual
  underflow (the exponent of the last place never goes below \<open>-1074\<close>). Infinities and
  NaN are not represented: the model covers computations that stay in the finite range.
  Comparison of floats is comparison of their values.
\<close>

type_synonym double = real

definition ilog2 :: "real \<Rightarrow> int" where
  \<comment> \<open>for \<open>0 < x\<close>, the integer \<open>n\<close> with \<open>2 powi n \<le> x < 2 powi (n + 1)\<close>\<close>
  "ilog2 x =
     (if 1 \<le> x then bitlen \<lfloor>x\<rfloor> - 1
      else (let k = bitlen \<lfloor>1 / x\<rfloor> - 1 in if x = 2 powi (- k) then - k else - k - 1))"

definition round_half_even :: "real \<Rightarrow> int" where
  "round_half_even x =
     (let f = \<lfloor>x\<rfloor>; r = x - of_int f
      in if r < 1 / 2 then f else if 1 / 2 < r then f + 1 else if even f then f else f + 1)"

definition round_double :: "real \<Rightarrow> double" where
  "round_double x =
     (if x = 0 then 0
      else (let e = max (ilog2 \<bar>x\<bar> - 52) (- 1074)
            in of_int (round_half_even (x / 2 powi e)) * 2 powi e))"


definition fadd :: "double \<Rightarrow> double \<Rightarrow> double" where
  "fadd x y = round_double (x + y)"

definition fsub :: "double \<Rightarrow> double \<Rightarrow> double" where
  "fsub x y = round_double (x - y)"

definition fmul :: "double \<Rightarrow> double \<Rightarrow> double" where
  "fmul x y = round_double (x * y)"

definition fdiv :: "double \<Rightarrow> double \<Rightarrow> double" where
  \<comment> \<open>every division of the source is guarded against a zero divisor\<close>
  "fdiv x y = round_double (x / y)"

definition float_of_int :: "int \<Rightarrow> double" where
  \<comment> \<open>the conversion applied to an \<open>int\<close> operand of a mixed operation\<close>
  "float_of_int n = round_double (of_int n)"






text \<open>
  \<open>sum(xs)\<close> of the interpreter: a left-to-right accumulation starting from \<open>0\<close>.
  (CPython 3.12 and later compensate the rounding errors of the accumulation; the
  outcomes evaluated on concrete inputs below are the same under both.)
\<close>

definition fsum :: "double list \<Rightarrow> double" where
  "fsum xs = foldl fadd 0 xs"

type_synonym metrics = "(string \<times> double) list"


section \<open>A/B testing framework (\<open>benchmarking/ab_testing.py\<close>)\<close>

record experiment_row =
  e_id :: string
  e_name :: string
  e_module_type :: string
  e_baseline_model_id :: "string option"
  e_optimized_model_id :: "string option"
  e_split_ratio :: double
  e_created_at :: string
  e_status :: string
  e_notes :: "string option"

record evaluation_row =
  ev_id :: string
  ev_experiment_id :: string
  ev_variant :: string
  ev_timestamp :: string
  ev_metrics :: metrics

record ab_store =
  experiments :: "experiment_row list"
  ab_evaluations :: "evaluation_row list"

definition empty_ab_store :: ab_store where
  "empty_ab_store = \<lparr>experiments = [], ab_evaluations = []\<rparr>"


text \<open>
  \<open>create_experiment\<close>: the identifier (\<open>uuid4\<close>) and the clock reading are inputs.
  The \<open>INSERT\<close> fails only on the primary key; \<open>status\<close> takes the column default.
\<close>

definition create_experiment ::
  "ab_store \<Rightarrow> string \<Rightarrow> string \<Rightarrow> string \<Rightarrow> string \<Rightarrow> string option \<Rightarrow> string option
     \<Rightarrow> double \<Rightarrow> string option \<Rightarrow> (py_error + string) \<times> ab_store" where
  "create_experiment st experiment_id created_at name module_type baseline_model_id
       optimized_model_id split_ratio notes =
     (if experiment_id \<in> set (map e_id (experiments st)) then (Inl IntegrityError, st)
      else (Inr experiment_id,
            st\<lparr>experiments := experiments st @
                 [\<lparr>e_id = experiment_id, e_name = name, e_module_type = module_type,
                   e_baseline_model_id = baseline_model_id,
                   e_optimized_model_id = optimized_model_id,
                   e_split_ratio = split_ratio, e_created_at = created_at,
                   e_status = ''active'', e_notes = notes\<rparr>]\<rparr>))"

text \<open>
  \<open>record_evaluation\<close>: SQLite does not enforce the foreign key unless asked to, and
  the source never asks, so the \<open>INSERT\<close> fails only on the primary key.
\<close>

definition record_evaluation ::
  "ab_store \<Rightarrow> string \<Rightarrow> string \<Rightarrow> string \<Rightarrow> string \<Rightarrow> metrics
     \<Rightarrow> (py_error + unit) \<times> ab_store" where
  "record_evaluation st eval_id timestamp experiment_id variant metrics =
     (if eval_id \<in> set (map ev_id (ab_evaluations st)) then (Inl IntegrityError, st)
      else (Inr (),
            st\<lparr>ab_evaluations := ab_evaluations st @
                 [\<lparr>ev_id = eval_id, ev_experiment_id = experiment_id, ev_variant = variant,
                   ev_timestamp = timestamp, ev_metrics = metrics\<rparr>]\<rparr>))"

definition mean_of :: "double list \<Rightarrow> double" where
  \<comment> \<open>\<open>sum(xs) / len(xs)\<close>\<close>
  "mean_of xs = fdiv (fsum xs) (float_of_int (int (length xs)))"








section \<open>Model registry (\<open>storage/model_registry.py\<close>)\<close>

text \<open>
  The \<open>models\<close> table is the list of its rows in insertion order; the models directory
  is a map from file paths to the pickled modules. \<open>pickle.dump\<close> followed by
  \<open>pickle.load\<close> gives back the module, so a file holds the module itself. The clock
  readings (\<open>datetime.utcnow().isoformat()\<close>) are inputs of the operations. An
  operation returns its result, or the exception it raises, together with the registry
  it leaves behind.
\<close>

datatype py_value = PyInt int | PyFloat double | PyStr string

record model_row =
  m_id :: string
  m_module_type :: string
  m_version :: int
  m_created_at :: string
  m_file_path :: string
  m_metrics :: "metrics option"
  m_training_examples_count :: "int option"
  m_optimization_params :: "(string \<times> py_value) list option"
  m_is_active :: bool
  m_notes :: "string option"

record 'm model_registry =
  models_dir :: string
  models :: "model_row list"
  files :: "string \<rightharpoonup> 'm"

definition empty_registry :: "string \<Rightarrow> 'm model_registry" where
  "empty_registry dir = \<lparr>models_dir = dir, models = [], files = Map.empty\<rparr>"

fun str_nat :: "nat \<Rightarrow> string" where
  "str_nat n =
     (if n < 10 then [char_of (48 + n)] else str_nat (n div 10) @ [char_of (48 + n mod 10)])"

declare str_nat.simps [simp del]

definition str_int :: "int \<Rightarrow> string" where
  "str_int i = (if i < 0 then CHR ''-'' # str_nat (nat (- i)) else str_nat (nat i))"

definition get_next_version :: "'m model_registry \<Rightarrow> string \<Rightarrow> int" where
  \<comment> \<open>\<open>SELECT MAX(version) FROM models WHERE module_type = ?\<close>, \<open>0\<close> when there is none\<close>
  "get_next_version reg module_type =
     (let vs = map m_version (filter (\<lambda>r. m_module_type r = module_type) (models reg));
          max_version = (if vs = [] then 0 else Max (set vs))
      in max_version + 1)"

definition json_or_none :: "'a list option \<Rightarrow> 'a list option" where
  \<comment> \<open>\<open>json.dumps(d) if d else None\<close>: an empty dict is stored as \<open>NULL\<close>\<close>
  "json_or_none d = (case d of None \<Rightarrow> None | Some kv \<Rightarrow> if kv = [] then None else Some kv)"

definition register_model ::
  "'m model_registry \<Rightarrow> string \<Rightarrow> string \<Rightarrow> string \<Rightarrow> string \<Rightarrow> 'm \<Rightarrow> int option
     \<Rightarrow> metrics option \<Rightarrow> int option \<Rightarrow> (string \<times> py_value) list option \<Rightarrow> string option
     \<Rightarrow> (py_error + string) \<times> 'm model_registry" where
  "register_model reg now created_at model_id module_type module_obj version metrics
       training_examples_count optimization_params notes =
     (let version' = (case version of None \<Rightarrow> get_next_version reg module_type | Some v \<Rightarrow> v);
          timestamp = map (\<lambda>c. if c = CHR '':'' then CHR ''-'' else c) now;
          filename = module_type @ ''_v'' @ str_int version' @ ''_'' @ timestamp @ ''.pkl'';
          file_path = models_dir reg @ ''/'' @ filename;
          reg' = reg\<lparr>files := (files reg)(file_path \<mapsto> module_obj)\<rparr>
      in if model_id \<in> set (map m_id (models reg))
            \<or> (module_type, version') \<in> set (map (\<lambda>r. (m_module_type r, m_version r)) (models reg))
         then (Inl IntegrityError, reg')
         else (Inr model_id,
               reg'\<lparr>models := models reg @
                 [\<lparr>m_id = model_id, m_module_type = module_type, m_version = version',
                   m_created_at = created_at, m_file_path = file_path,
                   m_metrics = json_or_none metrics,
                   m_training_examples_count = training_examples_count,
                   m_optimization_params = json_or_none optimization_params,
                   m_is_active = False, m_notes = notes\<rparr>]\<rparr>))"

definition str_truthy :: "string option \<Rightarrow> bool" where
  \<comment> \<open>\<open>if s:\<close> for an optional string: neither \<open>None\<close> nor empty\<close>
  "str_truthy s = (case s of None \<Rightarrow> False | Some v \<Rightarrow> v \<noteq> [])"

definition int_truthy :: "int option \<Rightarrow> bool" where
  \<comment> \<open>\<open>if n:\<close> for an optional integer: neither \<open>None\<close> nor \<open>0\<close>\<close>
  "int_truthy n = (case n of None \<Rightarrow> False | Some v \<Rightarrow> v \<noteq> 0)"

definition select_row ::
  "'m model_registry \<Rightarrow> string option \<Rightarrow> string option \<Rightarrow> int option
     \<Rightarrow> py_error + model_row option" where
  \<comment> \<open>the \<open>if\<close>/\<open>elif\<close> chain of \<open>load_model\<close>; \<open>fetchone\<close> is the first matching row\<close>
  "select_row reg model_id module_type version =
     (if str_truthy model_id
      then Inr (find (\<lambda>r. Some (m_id r) = model_id) (models reg))
      else if str_truthy module_type \<and> int_truthy version
      then Inr (find (\<lambda>r. Some (m_module_type r) = module_type \<and> Some (m_version r) = version)
                  (models reg))
      else if str_truthy module_type
      then Inr (find (\<lambda>r. Some (m_module_type r) = module_type \<and> m_is_active r) (models reg))
      else Inl ValueError)"

definition load_model ::
  "'m model_registry \<Rightarrow> string option \<Rightarrow> string option \<Rightarrow> int option
     \<Rightarrow> py_error + 'm option" where
  \<comment> \<open>\<open>Inr None\<close> is the \<open>return None\<close> of the source\<close>
  "load_model reg model_id module_type version =
     (case select_row reg model_id module_type version of
        Inl e \<Rightarrow> Inl e
      | Inr None \<Rightarrow> Inr None
      | Inr (Some row) \<Rightarrow>
          (case files reg (m_file_path row) of
             None \<Rightarrow> Inl FileNotFoundError
           | Some module_obj \<Rightarrow> Inr (Some module_obj)))"

definition set_active_model ::
  "'m model_registry \<Rightarrow> string \<Rightarrow> (py_error + unit) \<times> 'm model_registry" where
  "set_active_model reg model_id =
     (case find (\<lambda>r. m_id r = model_id) (models reg) of
        None \<Rightarrow> (Inl ValueError, reg)
      | Some row \<Rightarrow>
          (let module_type = m_module_type row;
               deactivated = map (\<lambda>r. if m_module_type r = module_type
                                        then r\<lparr>m_is_active := False\<rparr> else r) (models reg);
               activated = map (\<lambda>r. if m_id r = model_id
                                      then r\<lparr>m_is_active := True\<rparr> else r) deactivated
           in (Inr (), reg\<lparr>models := activated\<rparr>)))"

section \<open>Performance tracker (\<open>benchmarking/performance_tracker.py\<close>)\<close>









section \<open>Optimization pipeline (\<open>optimization/pipeline.py\<close>)\<close>

text \<open>
  The external collaborators of \<open>optimize_rubric\<close> are parameters: \<open>baseline_eval\<close> is
  the baseline module's \<open>forward\<close> followed by the metric on one example,
  \<open>compile\<close> is the optimizer's \<open>compile\<close> on the training set and the number of trials,
  and \<open>optimized_eval\<close> is \<open>forward\<close> of the compiled module followed by the metric. Each
  of them may raise. \<open>uuid8\<close> is the eight hexadecimal digits drawn for the model id.
\<close>

definition collect_scores :: "('ex \<Rightarrow> py_error + double) \<Rightarrow> 'ex list \<Rightarrow> double list" where
  \<comment> \<open>the evaluation loop: an example whose evaluation raises is logged and skipped\<close>
  "collect_scores ev xs = concat (map (\<lambda>x. case ev x of Inl e \<Rightarrow> [] | Inr s \<Rightarrow> [s]) xs)"

definition optimize_rubric ::
  "'m model_registry \<Rightarrow> string \<Rightarrow> string \<Rightarrow> string
     \<Rightarrow> ('ex \<Rightarrow> py_error + double) \<Rightarrow> ('ex list \<Rightarrow> int \<Rightarrow> py_error + 'm)
     \<Rightarrow> ('m \<Rightarrow> 'ex \<Rightarrow> py_error + double)
     \<Rightarrow> 'ex list \<Rightarrow> 'ex list option \<Rightarrow> int \<Rightarrow> int \<Rightarrow> double
     \<Rightarrow> (py_error + 'm) \<times> 'm model_registry" where
  "optimize_rubric reg uuid8 now created_at baseline_eval compile optimized_eval
       trainset valset num_trials num_candidates init_temperature =
     (let valset' = (case valset of None \<Rightarrow> trainset
                     | Some v \<Rightarrow> if v = [] then trainset else v);
          baseline_scores = collect_scores baseline_eval valset';
          b_mean = (if baseline_scores \<noteq> [] then mean_of baseline_scores else 0)
      in case compile trainset num_trials of
           Inl error \<Rightarrow> (Inl error, reg)
         | Inr optimized_module \<Rightarrow>
             (let optimized_scores = collect_scores (optimized_eval optimized_module) valset';
                  o_mean = (if optimized_scores \<noteq> [] then mean_of optimized_scores else 0);
                  improvement = (if 0 < b_mean
                                 then fmul (fdiv (fsub o_mean b_mean) b_mean) 100 else 0);
                  model_id = ''rubric_optimizer_'' @ uuid8
              in case register_model reg now created_at model_id ''rubric_optimizer''
                        optimized_module None
                        (Some [(''baseline_score'', b_mean), (''optimized_score'', o_mean),
                               (''improvement_percent'', improvement)])
                        (Some (int (length trainset)))
                        (Some [(''num_trials'', PyInt num_trials),
                               (''num_candidates'', PyInt num_candidates),
                               (''init_temperature'', PyFloat init_temperature)])
                        (Some (''MIPROv2 optimization with '' @ str_int num_trials @ '' trials''))
                 of (Inl error, reg1) \<Rightarrow> (Inl error, reg1)
                  | (Inr registered, reg1) \<Rightarrow>
                      (if 5 < improvement
                       then (case set_active_model reg1 model_id of
                               (Inl error, reg2) \<Rightarrow> (Inl error, reg2)
                             | (Inr u, reg2) \<Rightarrow> (Inr optimized_module, reg2))
                       else (Inr optimized_module, reg1))))"

section \<open>Vocabulary of the properties\<close>

text \<open>
  A load request is proper when the selector the caller means is the one the \<open>if\<close> chain
  of \<open>load_model\<close> takes: a non-empty id, or no id and a non-empty module type with a
  version other than \<open>0\<close> or none. \<open>request_matches\<close> is the row the request asks for.
\<close>

definition proper_request :: "string option \<Rightarrow> string option \<Rightarrow> int option \<Rightarrow> bool" where
  "proper_request model_id module_type version =
     (case model_id of
        Some i \<Rightarrow> i \<noteq> []
      | None \<Rightarrow> (case module_type of None \<Rightarrow> False | Some t \<Rightarrow> t \<noteq> [] \<and> version \<noteq> Some 0))"

definition request_matches ::
  "string option \<Rightarrow> string option \<Rightarrow> int option \<Rightarrow> model_row \<Rightarrow> bool" where
  "request_matches model_id module_type version r =
     (case model_id of
        Some i \<Rightarrow> m_id r = i
      | None \<Rightarrow>
          (case version of
             Some v \<Rightarrow> Some (m_module_type r) = module_type \<and> m_version r = v
           | None \<Rightarrow> Some (m_module_type r) = module_type \<and> m_is_active r))"

text \<open>
  Sequences of calls on a registry. A call that raises leaves the registry as the
  operation left it, and the next call goes on from there.
\<close>

datatype 'm registry_call =
    Register string string string string 'm "int option" "metrics option" "int option"
      "(string \<times> py_value) list option" "string option"
  | SetActive string

fun apply_call :: "'m model_registry \<Rightarrow> 'm registry_call \<Rightarrow> 'm model_registry" where
  "apply_call reg (Register now created_at model_id module_type module_obj version metrics
       training_examples_count optimization_params notes) =
     snd (register_model reg now created_at model_id module_type module_obj version metrics
            training_examples_count optimization_params notes)"
| "apply_call reg (SetActive model_id) = snd (set_active_model reg model_id)"

definition run_calls :: "'m model_registry \<Rightarrow> 'm registry_call list \<Rightarrow> 'm model_registry" where
  "run_calls reg calls = foldl apply_call reg calls"



definition versions_of :: "'m model_registry \<Rightarrow> string \<Rightarrow> int list" where
  "versions_of reg module_type =
     map m_version (filter (\<lambda>r. m_module_type r = module_type) (models reg))"

fun auto_version :: "'m registry_call \<Rightarrow> bool" where
  "auto_version (Register now created_at model_id module_type module_obj version metrics
       training_examples_count optimization_params notes) = (version = None)"
| "auto_version (SetActive model_id) = True"

definition gapless :: "'m model_registry \<Rightarrow> bool" where
  "gapless reg \<longleftrightarrow> (\<forall>t. versions_of reg t = [1 .. int (length (versions_of reg t))])"




section \<open>Properties\<close>

subsection \<open>Rounding\<close>














subsection \<open>Significance analysis\<close>














subsection \<open>Degradation detection\<close>







subsection \<open>Stores, registry and pipeline\<close>


text \<open>
  Claim C9. If the optimizer's \<open>compile\<close> raises, \<open>optimize_rubric\<close> raises the same
  exception and leaves the registry (rows and files) exactly as it was: nothing is
  registered and nothing is activated.
\<close>

theorem optimize_rubric_compile_failure:
  assumes "compile trainset num_trials = Inl err"
  shows "optimize_rubric reg uuid8 now created_at baseline_eval compile optimized_eval
           trainset valset num_trials num_candidates init_temperature = (Inl err, reg)"
  using assms by (simp add: optimize_rubric_def Let_def)

theorem optimize_rubric_compile_failure_witness:
  "(\<lambda>ts n. Inl (ExternalError ''compile failed'')) [1::nat, 2] (100::int)
     = (Inl (ExternalError ''compile failed'') :: py_error + nat)
   \<and> optimize_rubric (empty_registry ''dspy_models'') ''0a1b2c3d'' ''2025-01-01T00:00:00''
        ''2025-01-01T00:00:00'' (\<lambda>x. Inr (1 / 2))
        (\<lambda>ts n. Inl (ExternalError ''compile failed'')) (\<lambda>m x. Inr 1)
        [1::nat, 2] None 100 10 1
     = (Inl (ExternalError ''compile failed''), (empty_registry ''dspy_models'' :: nat model_registry))"
  using optimize_rubric_compile_failure
    [of "\<lambda>ts n. Inl (ExternalError ''compile failed'')" "[1::nat, 2]" 100
        "ExternalError ''compile failed''" "empty_registry ''dspy_models'' :: nat model_registry"
        "''0a1b2c3d''" "''2025-01-01T00:00:00''" "''2025-01-01T00:00:00''"
        "\<lambda>x. Inr (1 / 2)" "\<lambda>m x. Inr 1" None 10 1]
  by simp

text \<open>
  Claim C6 says that a \<open>split_ratio\<close> outside \<open>(0, 1]\<close> makes \<open>create_experiment\<close> fail
  without creating a row. The source does not look at the ratio: with \<open>split_ratio = 1.5\<close>
  the call returns the new id and the row is there.
\<close>

theorem create_experiment_bad_ratio_counterexample:
  "fst (create_experiment empty_ab_store ''exp_000000000001'' ''2025-01-01T00:00:00'' ''test''
          ''rubric_optimizer'' None None (3 / 2) None) = Inr ''exp_000000000001''
   \<and> length (experiments (snd (create_experiment empty_ab_store ''exp_000000000001''
          ''2025-01-01T00:00:00'' ''test'' ''rubric_optimizer'' None None (3 / 2) None))) = 1"
  by (simp add: create_experiment_def empty_ab_store_def)

text \<open>
  Claim C6, amended. \<open>create_experiment\<close> does not validate \<open>split_ratio\<close>: for every
  ratio, inside \<open>(0, 1]\<close> or not, the call succeeds whenever the generated id is not
  already in use, returns that id and adds exactly one experiment row, which stores the
  ratio as given.
\<close>

theorem create_experiment_any_ratio:
  assumes "experiment_id \<notin> set (map e_id (experiments st))"
  shows "fst (create_experiment st experiment_id created_at name module_type baseline_model_id
                optimized_model_id split_ratio notes) = Inr experiment_id
       \<and> length (experiments (snd (create_experiment st experiment_id created_at name
                module_type baseline_model_id optimized_model_id split_ratio notes)))
           = Suc (length (experiments st))
       \<and> e_split_ratio (last (experiments (snd (create_experiment st experiment_id created_at
                name module_type baseline_model_id optimized_model_id split_ratio notes))))
           = split_ratio"
  using assms by (simp add: create_experiment_def)

theorem create_experiment_any_ratio_witness:
  "''exp_000000000001'' \<notin> set (map e_id (experiments empty_ab_store))
   \<and> fst (create_experiment empty_ab_store ''exp_000000000001'' ''2025-01-01T00:00:00'' ''test''
          ''rubric_optimizer'' None None (- 1) None) = Inr ''exp_000000000001''
   \<and> e_split_ratio (last (experiments (snd (create_experiment empty_ab_store
          ''exp_000000000001'' ''2025-01-01T00:00:00'' ''test'' ''rubric_optimizer'' None None
          (- 1) None)))) = - 1"
proof -
  have fresh: "''exp_000000000001'' \<notin> set (map e_id (experiments empty_ab_store))"
    by (simp add: empty_ab_store_def)
  from create_experiment_any_ratio [OF fresh, of "''2025-01-01T00:00:00''" "''test''"
      "''rubric_optimizer''" None None "- 1" None] fresh
  show ?thesis by blast
qed

text \<open>
  Claim C7 says that \<open>record_evaluation\<close> rejects a variant other than \<open>baseline\<close> and
  \<open>optimized\<close>. The source inserts whatever it is given: the variant \<open>control\<close> is
  recorded.
\<close>

theorem record_evaluation_bad_variant_counterexample:
  "fst (record_evaluation empty_ab_store ''eval_000000000001'' ''2025-01-01T00:00:00''
          ''exp_000000000001'' ''control'' [(''primary_score'', 1 / 2)]) = Inr ()
   \<and> map ev_variant (ab_evaluations (snd (record_evaluation empty_ab_store ''eval_000000000001''
          ''2025-01-01T00:00:00'' ''exp_000000000001'' ''control'' [(''primary_score'', 1 / 2)])))
       = [''control'']"
  by (simp add: record_evaluation_def empty_ab_store_def)

text \<open>
  Claim C7, amended. \<open>record_evaluation\<close> does not validate the variant: for every
  variant string the call succeeds whenever the generated id is not already in use and
  appends exactly one evaluation row, which carries the variant as given.
\<close>

theorem record_evaluation_any_variant:
  assumes "eval_id \<notin> set (map ev_id (ab_evaluations st))"
  shows "fst (record_evaluation st eval_id timestamp experiment_id variant metrics) = Inr ()
       \<and> length (ab_evaluations (snd (record_evaluation st eval_id timestamp experiment_id
                variant metrics))) = Suc (length (ab_evaluations st))
       \<and> ev_variant (last (ab_evaluations (snd (record_evaluation st eval_id timestamp
                experiment_id variant metrics)))) = variant"
  using assms by (simp add: record_evaluation_def)

theorem record_evaluation_any_variant_witness:
  "''eval_000000000001'' \<notin> set (map ev_id (ab_evaluations empty_ab_store))
   \<and> fst (record_evaluation empty_ab_store ''eval_000000000001'' ''2025-01-01T00:00:00''
          ''exp_000000000001'' ''baseline'' [(''primary_score'', 1 / 2)]) = Inr ()
   \<and> length (ab_evaluations (snd (record_evaluation empty_ab_store ''eval_000000000001''
          ''2025-01-01T00:00:00'' ''exp_000000000001'' ''baseline'' [(''primary_score'', 1 / 2)])))
       = Suc (length (ab_evaluations empty_ab_store))"
proof -
  have fresh: "''eval_000000000001'' \<notin> set (map ev_id (ab_evaluations empty_ab_store))"
    by (simp add: empty_ab_store_def)
  from record_evaluation_any_variant [OF fresh, of "''2025-01-01T00:00:00''"
      "''exp_000000000001''" "''baseline''" "[(''primary_score'', 1 / 2)]"] fresh
  show ?thesis by blast
qed

lemma filter_at_most_one:
  assumes "distinct (map k xs)" and "\<forall>x \<in> set xs. Q x \<longrightarrow> k x = c"
  shows "length (filter Q xs) \<le> 1"
  using assms
proof (induction xs)
  case Nil
  then show ?case by simp
next
  case (Cons x xs)
  show ?case
  proof (cases "Q x")
    case True
    with Cons.prems have "k x = c" by simp
    moreover from Cons.prems(1) have "k x \<notin> k ` set xs" by simp
    ultimately have "\<forall>y \<in> set xs. \<not> Q y" using Cons.prems(2) by (auto simp: image_iff)
    then have "filter Q xs = []" by (simp add: filter_empty_conv)
    with True show ?thesis by simp
  next
    case False
    with Cons show ?thesis by simp
  qed
qed





lemma set_active_model_models:
  assumes "find (\<lambda>r. m_id r = model_id) (models reg) = Some row"
  shows "models (snd (set_active_model reg model_id))
           = map (\<lambda>r. if m_id r = model_id then r\<lparr>m_is_active := True\<rparr>
                       else if m_module_type r = m_module_type row
                            then r\<lparr>m_is_active := False\<rparr> else r) (models reg)"
  using assms by (simp add: set_active_model_def Let_def)







lemma get_next_version_versions_of:
  "get_next_version reg t
     = (if versions_of reg t = [] then 1 else Max (set (versions_of reg t)) + 1)"
  by (simp add: get_next_version_def versions_of_def Let_def)

lemma next_version_fresh:
  "(t, get_next_version reg t) \<notin> set (map (\<lambda>r. (m_module_type r, m_version r)) (models reg))"
proof
  assume "(t, get_next_version reg t) \<in> set (map (\<lambda>r. (m_module_type r, m_version r)) (models reg))"
  then have mem: "get_next_version reg t \<in> set (versions_of reg t)"
    by (auto simp: versions_of_def)
  then have "versions_of reg t \<noteq> []" by auto
  then have "get_next_version reg t = Max (set (versions_of reg t)) + 1"
    by (simp add: get_next_version_versions_of)
  moreover from mem have "get_next_version reg t \<le> Max (set (versions_of reg t))"
    by (intro Max_ge) auto
  ultimately show False by simp
qed

lemma register_auto_versions_of:
  "versions_of (snd (register_model reg now created_at model_id module_type module_obj None
      metrics training_examples_count optimization_params notes)) t
     = (if t = module_type \<and> model_id \<notin> set (map m_id (models reg))
        then versions_of reg t @ [get_next_version reg t] else versions_of reg t)"
  using next_version_fresh [of module_type reg]
  by (simp add: register_model_def Let_def versions_of_def)

lemma set_active_versions_of:
  "versions_of (snd (set_active_model reg model_id)) t = versions_of reg t"
proof (cases "find (\<lambda>r. m_id r = model_id) (models reg)")
  case None
  then show ?thesis by (simp add: set_active_model_def)
next
  case (Some row)
  define h :: "model_row \<Rightarrow> model_row" where
    "h = (\<lambda>r. if m_id r = model_id then r\<lparr>m_is_active := True\<rparr>
               else if m_module_type r = m_module_type row
                    then r\<lparr>m_is_active := False\<rparr> else r)"
  have h: "m_version (h r) = m_version r" "m_module_type (h r) = m_module_type r" for r
    by (simp_all add: h_def)
  have "models (snd (set_active_model reg model_id)) = map h (models reg)"
    unfolding h_def by (rule set_active_model_models [OF Some])
  then have "versions_of (snd (set_active_model reg model_id)) t
      = map (m_version \<circ> h) (filter ((\<lambda>r. m_module_type r = t) \<circ> h) (models reg))"
    by (simp only: versions_of_def filter_map map_map)
  also have "m_version \<circ> h = m_version" by (rule ext) (simp add: h)
  also have "(\<lambda>r. m_module_type r = t) \<circ> h = (\<lambda>r. m_module_type r = t)"
    by (rule ext) (simp add: h)
  finally show ?thesis by (simp add: versions_of_def)
qed

lemma gapless_next:
  assumes "vs = [1 .. int (length vs)]"
  shows "(if vs = [] then 1 else Max (set vs) + 1) = int (length vs) + 1"
proof (cases "vs = []")
  case True
  then show ?thesis by simp
next
  case False
  then have pos: "1 \<le> int (length vs)" by (cases vs) simp_all
  have "set vs = {1 .. int (length vs)}" by (subst assms) simp
  with pos have "Max (set vs) = int (length vs)" by (simp add: Max_eq_iff)
  with False show ?thesis by simp
qed

lemma gapless_snoc:
  assumes "vs = [1 .. int (length vs)]"
  shows "vs @ [int (length vs) + 1] = [1 .. int (length (vs @ [int (length vs) + 1]))]"
proof -
  define n where "n = int (length vs)"
  have vs: "vs = [1 .. n]" unfolding n_def by (rule assms)
  have "0 \<le> n" by (simp add: n_def)
  then have "[1 .. n + 1] = [1 .. n] @ [n + 1]"
    by (subst upto_rec2) simp_all
  then have "vs @ [n + 1] = [1 .. n + 1]" by (simp only: vs [symmetric])
  moreover have "int (length (vs @ [n + 1])) = n + 1" by (simp add: n_def)
  ultimately have "vs @ [n + 1] = [1 .. int (length (vs @ [n + 1]))]" by (simp only:)
  then show ?thesis unfolding n_def .
qed

lemma register_auto_gapless:
  assumes "gapless reg"
  shows "gapless (snd (register_model reg now created_at model_id module_type module_obj None
      metrics training_examples_count optimization_params notes))"
  unfolding gapless_def
proof
  fix t
  let ?reg' = "snd (register_model reg now created_at model_id module_type module_obj None
      metrics training_examples_count optimization_params notes)"
  from assms have vs: "versions_of reg t = [1 .. int (length (versions_of reg t))]"
    unfolding gapless_def by (rule allE)
  have nxt: "get_next_version reg t = int (length (versions_of reg t)) + 1"
    unfolding get_next_version_versions_of by (rule gapless_next [OF vs])
  show "versions_of ?reg' t = [1 .. int (length (versions_of ?reg' t))]"
  proof (cases "t = module_type \<and> model_id \<notin> set (map m_id (models reg))")
    case True
    with nxt have A: "versions_of ?reg' t = versions_of reg t @ [int (length (versions_of reg t)) + 1]"
      by (simp add: register_auto_versions_of)
    show ?thesis unfolding A by (rule gapless_snoc [OF vs])
  next
    case False
    then have A: "versions_of ?reg' t = versions_of reg t"
      by (auto simp: register_auto_versions_of)
    show ?thesis unfolding A by (rule vs)
  qed
qed

lemma apply_call_gapless:
  assumes "gapless reg" and "auto_version c"
  shows "gapless (apply_call reg c)"
proof (cases c)
  case (Register now created_at model_id module_type module_obj version metrics
      training_examples_count optimization_params nts)
  with assms(2) have "version = None" by simp
  with Register assms(1) show ?thesis by (simp add: register_auto_gapless)
next
  case (SetActive model_id)
  with assms(1) show ?thesis by (simp add: gapless_def set_active_versions_of)
qed

lemma run_calls_gapless:
  "gapless reg \<Longrightarrow> \<forall>c \<in> set calls. auto_version c \<Longrightarrow> gapless (run_calls reg calls)"
  unfolding run_calls_def
  by (induction calls arbitrary: reg) (simp_all add: apply_call_gapless)

lemma empty_registry_gapless: "gapless (empty_registry dir)"
  by (simp add: gapless_def empty_registry_def versions_of_def)

text \<open>
  Claim C2. After any sequence of calls on a fresh registry in which every
  \<open>register_model\<close> omits the version, the versions of each module type, in the order
  of registration, are \<open>1, 2, ..., N\<close>. A further registration without a version gets
  \<open>1\<close> when the module type has no row yet and the maximum of its versions plus one
  otherwise (and adds nothing when its id is already taken).
\<close>

theorem sequential_versions:
  assumes "\<forall>c \<in> set calls. auto_version c"
  shows "versions_of (run_calls (empty_registry dir) calls) t
           = [1 .. int (length (versions_of (run_calls (empty_registry dir) calls) t))]
       \<and> versions_of (snd (register_model (run_calls (empty_registry dir) calls) now created_at
             model_id t module_obj None metrics training_examples_count optimization_params
             notes)) t
           = (if model_id \<in> set (map m_id (models (run_calls (empty_registry dir) calls)))
              then versions_of (run_calls (empty_registry dir) calls) t
              else versions_of (run_calls (empty_registry dir) calls) t @
                   [if versions_of (run_calls (empty_registry dir) calls) t = [] then 1
                    else Max (set (versions_of (run_calls (empty_registry dir) calls) t)) + 1])"
proof -
  have "gapless (run_calls (empty_registry dir) calls)"
    by (rule run_calls_gapless [OF empty_registry_gapless assms])
  then have "versions_of (run_calls (empty_registry dir) calls) t
           = [1 .. int (length (versions_of (run_calls (empty_registry dir) calls) t))]"
    unfolding gapless_def by (rule allE)
  moreover have "versions_of (snd (register_model (run_calls (empty_registry dir) calls) now
             created_at model_id t module_obj None metrics training_examples_count
             optimization_params notes)) t
           = (if model_id \<in> set (map m_id (models (run_calls (empty_registry dir) calls)))
              then versions_of (run_calls (empty_registry dir) calls) t
              else versions_of (run_calls (empty_registry dir) calls) t @
                   [if versions_of (run_calls (empty_registry dir) calls) t = [] then 1
                    else Max (set (versions_of (run_calls (empty_registry dir) calls) t)) + 1])"
    by (simp add: register_auto_versions_of get_next_version_versions_of)
  ultimately show ?thesis by (rule conjI)
qed

theorem sequential_versions_witness:
  "auto_version (Register ''2025-01-01T00:00:00'' ''2025-01-01T00:00:00'' ''a'' ''rubric_optimizer''
      (1::nat) None None None None None)
   \<and> auto_version (Register ''2025-01-01T00:00:01'' ''2025-01-01T00:00:01'' ''b''
      ''rubric_optimizer'' (2::nat) None None None None None)
   \<and> versions_of (run_calls (empty_registry ''dspy_models'')
        [Register ''2025-01-01T00:00:00'' ''2025-01-01T00:00:00'' ''a'' ''rubric_optimizer''
           (1::nat) None None None None None,
         Register ''2025-01-01T00:00:01'' ''2025-01-01T00:00:01'' ''b'' ''rubric_optimizer''
           (2::nat) None None None None None]) ''rubric_optimizer'' = [1, 2]"
proof -
  let ?c1 = "Register ''2025-01-01T00:00:00'' ''2025-01-01T00:00:00'' ''a'' ''rubric_optimizer''
      (1::nat) None None None None None"
  let ?c2 = "Register ''2025-01-01T00:00:01'' ''2025-01-01T00:00:01'' ''b'' ''rubric_optimizer''
      (2::nat) None None None None None"
  have a: "\<forall>c \<in> set [?c1, ?c2]. auto_version c" by simp
  have len: "length (versions_of (run_calls (empty_registry ''dspy_models'') [?c1, ?c2])
      ''rubric_optimizer'') = 2"
    by (simp add: run_calls_def register_model_def empty_registry_def Let_def versions_of_def
        get_next_version_def)
  from sequential_versions [OF a, of "''dspy_models''" "''rubric_optimizer''"] len
  have "versions_of (run_calls (empty_registry ''dspy_models'') [?c1, ?c2]) ''rubric_optimizer''
      = [1 .. 2]" by simp
  also have "[1 .. 2] = [1, 2::int]" by (simp add: upto.simps)
  finally show ?thesis by simp
qed

lemma select_row_proper:
  assumes "proper_request model_id module_type version"
  shows "select_row reg model_id module_type version
           = Inr (find (request_matches model_id module_type version) (models reg))"
proof (cases model_id)
  case (Some i)
  with assms have "i \<noteq> []" by (simp add: proper_request_def)
  moreover have "(\<lambda>r. Some (m_id r) = Some i) = request_matches (Some i) module_type version"
    by (rule ext) (simp add: request_matches_def)
  ultimately show ?thesis using Some by (simp add: select_row_def str_truthy_def)
next
  case None
  with assms obtain t where t: "module_type = Some t" "t \<noteq> []" "version \<noteq> Some 0"
    by (auto simp: proper_request_def split: option.splits)
  show ?thesis
  proof (cases version)
    case vNone: None
    have "(\<lambda>r. Some (m_module_type r) = Some t \<and> m_is_active r) = request_matches None (Some t) None"
      by (rule ext) (simp add: request_matches_def)
    then show ?thesis using None t vNone
      by (simp add: select_row_def str_truthy_def int_truthy_def)
  next
    case (Some v)
    have "(\<lambda>r. Some (m_module_type r) = Some t \<and> Some (m_version r) = Some v)
            = request_matches None (Some t) (Some v)"
      by (rule ext) (simp add: request_matches_def)
    then show ?thesis using None t Some
      by (simp add: select_row_def str_truthy_def int_truthy_def)
  qed
qed

text \<open>
  Claim C5 says that a load request without a matching row fails with an error. The
  source logs a warning and returns \<open>None\<close>: on an empty registry the load by id is an
  ordinary return, not an exception.
\<close>

theorem load_model_not_found_counterexample:
  "load_model (empty_registry ''dspy_models'' :: nat model_registry) (Some ''rubric_optimizer_0a1b2c3d'')
     None None = Inr None"
  by (simp add: load_model_def select_row_def str_truthy_def empty_registry_def)

text \<open>
  Claim C5, amended. For every proper load request (by a non-empty id, by module type
  and a non-zero version, or by module type alone for the active version): when no row
  matches, \<open>load_model\<close> returns \<open>None\<close> without raising; when the row the query returns
  has no file, it raises \<open>FileNotFoundError\<close>; and when the file is there, it returns
  its content.
\<close>

theorem load_model_outcomes:
  assumes "proper_request model_id module_type version"
  shows "((\<forall>r \<in> set (models reg). \<not> request_matches model_id module_type version r)
            \<longrightarrow> load_model reg model_id module_type version = Inr None)
       \<and> (\<forall>row. find (request_matches model_id module_type version) (models reg) = Some row
              \<and> files reg (m_file_path row) = None
            \<longrightarrow> load_model reg model_id module_type version = Inl FileNotFoundError)
       \<and> (\<forall>row module_obj. find (request_matches model_id module_type version) (models reg) = Some row
              \<and> files reg (m_file_path row) = Some module_obj
            \<longrightarrow> load_model reg model_id module_type version = Inr (Some module_obj))"
proof -
  have "(\<forall>r \<in> set (models reg). \<not> request_matches model_id module_type version r)
          \<Longrightarrow> find (request_matches model_id module_type version) (models reg) = None"
    by (simp add: find_None_iff)
  then show ?thesis
    by (auto simp: load_model_def select_row_proper [OF assms])
qed


theorem load_model_outcomes_witness:
  "proper_request (Some ''m1'') None None
   \<and> load_model \<lparr>models_dir = ''dspy_models'',
          models = [\<lparr>m_id = ''m1'', m_module_type = ''rubric_optimizer'', m_version = 1,
                     m_created_at = ''2025-01-01T00:00:00'',
                     m_file_path = ''dspy_models/rubric_optimizer_v1_2025-01-01T00-00-00.pkl'',
                     m_metrics = None, m_training_examples_count = None,
                     m_optimization_params = None, m_is_active = True, m_notes = None\<rparr>],
          files = (Map.empty :: string \<rightharpoonup> nat)\<rparr> (Some ''m1'') None None
       = Inl FileNotFoundError
   \<and> proper_request None (Some ''judge_relevance'') None
   \<and> load_model \<lparr>models_dir = ''dspy_models'',
          models = [\<lparr>m_id = ''m1'', m_module_type = ''rubric_optimizer'', m_version = 1,
                     m_created_at = ''2025-01-01T00:00:00'',
                     m_file_path = ''dspy_models/rubric_optimizer_v1_2025-01-01T00-00-00.pkl'',
                     m_metrics = None, m_training_examples_count = None,
                     m_optimization_params = None, m_is_active = True, m_notes = None\<rparr>],
          files = (Map.empty :: string \<rightharpoonup> nat)\<rparr> None (Some ''judge_relevance'') None
       = Inr None"
proof -
  let ?row = "\<lparr>m_id = ''m1'', m_module_type = ''rubric_optimizer'', m_version = 1,
                     m_created_at = ''2025-01-01T00:00:00'',
                     m_file_path = ''dspy_models/rubric_optimizer_v1_2025-01-01T00-00-00.pkl'',
                     m_metrics = None, m_training_examples_count = None,
                     m_optimization_params = None, m_is_active = True, m_notes = None\<rparr>"
  let ?reg = "\<lparr>models_dir = ''dspy_models'', models = [?row],
               files = (Map.empty :: string \<rightharpoonup> nat)\<rparr>"
  have p1: "proper_request (Some ''m1'') None None"
    and p2: "proper_request None (Some ''judge_relevance'') None"
    by (simp_all add: proper_request_def)
  have "find (request_matches (Some ''m1'') None None) (models ?reg) = Some ?row
          \<and> files ?reg (m_file_path ?row) = None"
    by (simp add: request_matches_def)
  with load_model_outcomes [OF p1, of ?reg]
  have a: "load_model ?reg (Some ''m1'') None None = Inl FileNotFoundError" by blast
  have "\<forall>r \<in> set (models ?reg). \<not> request_matches None (Some ''judge_relevance'') None r"
    by (simp add: request_matches_def)
  with load_model_outcomes [OF p2, of ?reg]
  have b: "load_model ?reg None (Some ''judge_relevance'') None = Inr None" by blast
  from p1 a p2 b show ?thesis by blast
qed





end
